theory Spec2Isabelle
  imports Main "HOL-Library.Word"
begin

section \<open>Data model\<close>

text \<open>
  Go byte slices are lists of 8-bit words.  A Go \<open>error\<close> value is identified by its
  message; the only error built in the package itself is
  \<open>errors.New("cannot cast public key to ecsda public key")\<close>, every other one comes out
  of a callee and is handed on as it is.  A Go result pair \<open>(x, err)\<close> is a sum:
  \<open>Inl err\<close> for \<open>(nil, err)\<close>, \<open>Inr x\<close> for \<open>(x, nil)\<close>.
\<close>

type_synonym bytes = "8 word list"

type_synonym error = string

text \<open>
  \<open>privateKey.Public()\<close> has the static type \<open>crypto.PublicKey\<close>, an empty interface.
  The type assertion \<open>.(*ecdsa.PublicKey)\<close> succeeds on one dynamic type only.
\<close>

datatype 'pub crypto_PublicKey = ECDSA_PublicKey 'pub | Other_PublicKey

text \<open>
  A call that dereferences a nil interface panics; every other call returns.
\<close>

datatype 'a run = Panic | Return 'a

fun map_run :: "('a \<Rightarrow> 'b) \<Rightarrow> 'a run \<Rightarrow> 'b run" where
  "map_run f Panic = Panic"
| "map_run f (Return x) = Return (f x)"

section \<open>The imported packages\<close>

text \<open>
  Package \<open>crypto\<close> (\<open>github.com/ethereum/go-ethereum/crypto\<close>) and \<open>crypto/ecdsa\<close> are
  imported by \<open>keeper.go\<close>; their code is not part of the package.  The functions the
  keeper calls are the fields of a record, so that every statement below holds for any
  implementation of them.  The type \<open>'w\<close> is the state of everything outside the
  package (the random source of \<open>crypto.GenerateKey\<close>, a remote signer, ...): a call
  that may read or change it takes the state and returns the new one.  The private and
  public key objects \<open>*ecdsa.PrivateKey\<close> and \<open>*ecdsa.PublicKey\<close> are the type
  parameters \<open>'prv\<close> and \<open>'pub\<close>.

  \<open>crypto_Verify\<close> is the signature verification rule (public key bytes, data,
  signature) the round-trip law speaks about; the package itself never calls it.
\<close>

record ('prv, 'pub, 'w) crypto =
  crypto_GenerateKey :: "'w \<Rightarrow> (error + 'prv) \<times> 'w"
  crypto_FromECDSA :: "'prv \<Rightarrow> bytes"
  crypto_ToECDSA :: "bytes \<Rightarrow> error + 'prv"
  crypto_Public :: "'prv \<Rightarrow> 'pub crypto_PublicKey"
  crypto_FromECDSAPub :: "'pub \<Rightarrow> bytes"
  crypto_Sign :: "bytes \<Rightarrow> 'prv \<Rightarrow> 'w \<Rightarrow> (error + bytes) \<times> 'w"
  crypto_Verify :: "bytes \<Rightarrow> bytes \<Rightarrow> bytes \<Rightarrow> bool"

text \<open>
  Package \<open>core/types\<close>: the method \<open>Hash\<close> of the interface \<open>types.Signer\<close> (it
  returns a \<open>common.Hash\<close>, of which \<open>h[:]\<close> is the byte slice, and no error) and the
  method \<open>WithSignature\<close> of \<open>*types.Transaction\<close>, which can fail.
\<close>

record ('tx, 'sgn) types =
  Signer_Hash :: "'sgn \<Rightarrow> 'tx \<Rightarrow> bytes"
  Transaction_WithSignature :: "'tx \<Rightarrow> 'sgn \<Rightarrow> bytes \<Rightarrow> error + 'tx"

section \<open>PrivateKeyKeeper and its default implementation\<close>

text \<open>
  The interface \<open>PrivateKeyKeeper\<close>: three methods.  An implementation may be a
  hardware module or a remote service, so each method acts on the outside state.
\<close>

record 'w PrivateKeyKeeper =
  GeneratePrivateKey :: "'w \<Rightarrow> (error + bytes) \<times> 'w"
  GetPublicKey :: "bytes \<Rightarrow> 'w \<Rightarrow> (error + bytes) \<times> 'w"
  Sign :: "bytes \<Rightarrow> bytes \<Rightarrow> 'w \<Rightarrow> (error + bytes) \<times> 'w"

definition defaultPrivateKeyKeeper_GeneratePrivateKey ::
  "('prv, 'pub, 'w) crypto \<Rightarrow> 'w \<Rightarrow> (error + bytes) \<times> 'w" where
  "defaultPrivateKeyKeeper_GeneratePrivateKey c w =
     (case crypto_GenerateKey c w of
        (Inl err, w') \<Rightarrow> (Inl err, w')
      | (Inr privateKey, w') \<Rightarrow> (Inr (crypto_FromECDSA c privateKey), w'))"

definition defaultPrivateKeyKeeper_GetPublicKey ::
  "('prv, 'pub, 'w) crypto \<Rightarrow> bytes \<Rightarrow> 'w \<Rightarrow> (error + bytes) \<times> 'w" where
  "defaultPrivateKeyKeeper_GetPublicKey c prvID w =
     (case crypto_ToECDSA c prvID of
        Inl err \<Rightarrow> (Inl err, w)
      | Inr privateKey \<Rightarrow>
          (case crypto_Public c privateKey of
             Other_PublicKey \<Rightarrow> (Inl ''cannot cast public key to ecsda public key'', w)
           | ECDSA_PublicKey publicKeyECDSA \<Rightarrow>
               (Inr (crypto_FromECDSAPub c publicKeyECDSA), w)))"

definition defaultPrivateKeyKeeper_Sign ::
  "('prv, 'pub, 'w) crypto \<Rightarrow> bytes \<Rightarrow> bytes \<Rightarrow> 'w \<Rightarrow> (error + bytes) \<times> 'w" where
  "defaultPrivateKeyKeeper_Sign c data prvID w =
     (case crypto_ToECDSA c prvID of
        Inl err \<Rightarrow> (Inl err, w)
      | Inr prv \<Rightarrow>
          (case crypto_Sign c data prv w of
             (Inl err, w') \<Rightarrow> (Inl err, w')
           | (Inr sig, w') \<Rightarrow> (Inr sig, w')))"

text \<open>The package variable \<open>defaultKeeper\<close>, assigned once, at its declaration.\<close>

definition defaultKeeper :: "('prv, 'pub, 'w) crypto \<Rightarrow> 'w PrivateKeyKeeper" where
  "defaultKeeper c =
     \<lparr>GeneratePrivateKey = defaultPrivateKeyKeeper_GeneratePrivateKey c,
      GetPublicKey = defaultPrivateKeyKeeper_GetPublicKey c,
      Sign = defaultPrivateKeyKeeper_Sign c\<rparr>"

section \<open>secureSigner (keeper.go)\<close>

text \<open>The field \<open>keeper\<close> holds an interface value: \<open>None\<close> is nil.\<close>

record 'w secureSigner =
  keeper :: "'w PrivateKeyKeeper option"

definition NewSecureSigner :: "'w PrivateKeyKeeper option \<Rightarrow> 'w secureSigner" where
  "NewSecureSigner k = \<lparr>secureSigner.keeper = k\<rparr>"

definition DefaultSecureSigner :: "('prv, 'pub, 'w) crypto \<Rightarrow> 'w secureSigner" where
  "DefaultSecureSigner c = \<lparr>secureSigner.keeper = Some (defaultKeeper c)\<rparr>"

definition secureSigner_GenerateKey ::
  "'w secureSigner \<Rightarrow> 'w \<Rightarrow> ((error + bytes) \<times> 'w) run" where
  "secureSigner_GenerateKey sec w =
     (case secureSigner.keeper sec of
        None \<Rightarrow> Panic
      | Some k \<Rightarrow>
          (case GeneratePrivateKey k w of
             (Inl err, w') \<Rightarrow> Return (Inl err, w')
           | (Inr prvID, w') \<Rightarrow> Return (Inr prvID, w')))"

definition secureSigner_GetPublicKey ::
  "'w secureSigner \<Rightarrow> bytes \<Rightarrow> 'w \<Rightarrow> ((error + bytes) \<times> 'w) run" where
  "secureSigner_GetPublicKey sec prvID w =
     (case secureSigner.keeper sec of
        None \<Rightarrow> Panic
      | Some k \<Rightarrow>
          (case GetPublicKey k prvID w of
             (Inl err, w') \<Rightarrow> Return (Inl err, w')
           | (Inr pbl, w') \<Rightarrow> Return (Inr pbl, w')))"

definition secureSigner_Sign ::
  "('tx, 'sgn) types \<Rightarrow> 'w secureSigner \<Rightarrow> 'tx \<Rightarrow> 'sgn \<Rightarrow> bytes \<Rightarrow> 'w
     \<Rightarrow> ((error + 'tx) \<times> 'w) run" where
  "secureSigner_Sign T sec tx s prvID w =
     (let h = Signer_Hash T s tx in
      case secureSigner.keeper sec of
        None \<Rightarrow> Panic
      | Some k \<Rightarrow>
          (case Sign k h prvID w of
             (Inl err, w') \<Rightarrow> Return (Inl err, w')
           | (Inr sig, w') \<Rightarrow> Return (Transaction_WithSignature T tx s sig, w')))"

section \<open>SecureSign (the second file)\<close>

text \<open>
  The struct has the same single field \<open>keeper\<close>; the zero value \<open>SecureSign{}\<close> has
  it nil.
\<close>

record 'w SecureSign =
  keeper :: "'w PrivateKeyKeeper option"

definition SecureSign_SetKeeper ::
  "'w SecureSign \<Rightarrow> 'w PrivateKeyKeeper option \<Rightarrow> 'w SecureSign" where
  "SecureSign_SetKeeper a k = a\<lparr>SecureSign.keeper := k\<rparr>"

text \<open>
  \<open>Sign\<close> has a pointer receiver and may assign its field, so the receiver is returned
  with the result and the outside state.
\<close>

definition SecureSign_Sign ::
  "('tx, 'sgn) types \<Rightarrow> ('prv, 'pub, 'w) crypto \<Rightarrow> 'w SecureSign \<Rightarrow> 'tx \<Rightarrow> 'sgn \<Rightarrow> bytes \<Rightarrow> 'w
     \<Rightarrow> ((error + 'tx) \<times> 'w SecureSign \<times> 'w) run" where
  "SecureSign_Sign T c a0 tx s prvID w =
     (let a = (if SecureSign.keeper a0 = None
               then a0\<lparr>SecureSign.keeper := Some (defaultKeeper c)\<rparr> else a0);
          h = Signer_Hash T s tx in
      case SecureSign.keeper a of
        None \<Rightarrow> Panic
      | Some k \<Rightarrow>
          (case Sign k h prvID w of
             (Inl err, w') \<Rightarrow> Return (Inl err, a, w')
           | (Inr sig, w') \<Rightarrow> Return (Transaction_WithSignature T tx s sig, a, w')))"

section \<open>What the keeper expects of package crypto\<close>

text \<open>
  Modelled from the spec: the code of \<open>crypto.GenerateKey\<close>, \<open>crypto.FromECDSA\<close> and
  \<open>crypto.ToECDSA\<close> is missing.  The identifier of the default keeper "literally is the
  raw private key bytes", and the provider parses "raw private-key bytes into a usable
  key object": the bytes \<open>FromECDSA\<close> writes for a generated key are parsed back by
  \<open>ToECDSA\<close> to that key.
\<close>

definition crypto_key_roundtrip :: "('prv, 'pub, 'w) crypto \<Rightarrow> bool" where
  "crypto_key_roundtrip c \<longleftrightarrow>
     (\<forall>w prv w'. crypto_GenerateKey c w = (Inr prv, w') \<longrightarrow>
        crypto_ToECDSA c (crypto_FromECDSA c prv) = Inr prv)"

text \<open>
  Modelled from the spec: the code of \<open>crypto.Sign\<close>, of the public key derivation and
  serialisation and of signature verification is missing.  The provider signs a digest
  "producing a signature in the format expected by the target chain's
  signature-verification rule": a signature made with a private key verifies, on the
  signed data, against the serialised public key of that private key.
\<close>

definition crypto_sign_verify :: "('prv, 'pub, 'w) crypto \<Rightarrow> bool" where
  "crypto_sign_verify c \<longleftrightarrow>
     (\<forall>d prv w sig w' pub.
        crypto_Sign c d prv w = (Inr sig, w') \<longrightarrow>
        crypto_Public c prv = ECDSA_PublicKey pub \<longrightarrow>
        crypto_Verify c (crypto_FromECDSAPub c pub) d sig)"

section \<open>Sample collaborators\<close>

text \<open>
  Small instances of the imported packages and of a foreign keeper, on which the
  statements below are run.  \<open>sample_crypto\<close> has one-byte keys: the outside state is
  the stream of random bytes, a private key is a non-zero byte, its public key is three
  times that byte, a signature adds the key to every byte of a 32-byte digest.
\<close>

definition sample_crypto :: "(8 word, 8 word, bytes) crypto" where
  "sample_crypto =
     \<lparr>crypto_GenerateKey = (\<lambda>w. case w of
          [] \<Rightarrow> (Inl ''no entropy'', [])
        | x # xs \<Rightarrow> if x = 0 then (Inl ''zero key'', xs) else (Inr x, xs)),
      crypto_FromECDSA = (\<lambda>prv. [prv]),
      crypto_ToECDSA = (\<lambda>d. case d of
          [] \<Rightarrow> Inl ''invalid length''
        | x # xs \<Rightarrow> if xs \<noteq> [] then Inl ''invalid length''
                   else if x = 0 then Inl ''invalid private key'' else Inr x),
      crypto_Public = (\<lambda>prv. ECDSA_PublicKey (3 * prv)),
      crypto_FromECDSAPub = (\<lambda>pub. [4, pub]),
      crypto_Sign = (\<lambda>d prv w.
          if length d = 32 then (Inr (map (\<lambda>x. x + prv) d), w)
          else (Inl ''hash is required to be exactly 32 bytes'', w)),
      crypto_Verify = (\<lambda>pk d sig.
          pk \<noteq> [] \<and> hd pk = 4 \<and> length pk = 2 \<and>
          map (\<lambda>x. 3 * x) sig = map (\<lambda>x. 3 * x + last pk) d)\<rparr>"

text \<open>
  A transaction is a payload with a signature, a signer is a chain number; the hash is
  32 copies of the payload's first byte plus the chain number, and a signature is
  attached when it has 32 bytes.
\<close>

definition sample_types :: "(bytes \<times> bytes, 8 word) types" where
  "sample_types =
     \<lparr>Signer_Hash = (\<lambda>s tx. replicate 32 (s + (case fst tx of [] \<Rightarrow> 0 | b # bs \<Rightarrow> b))),
      Transaction_WithSignature = (\<lambda>tx s sig.
          if length sig = 32 then Inr (fst tx, sig) else Inl ''wrong size for signature'')\<rparr>"

text \<open>
  A keeper of another kind: it cannot generate, knows no public key, refuses the empty
  identifier and answers every other one with an empty signature.
\<close>

definition offline_keeper :: "bytes PrivateKeyKeeper" where
  "offline_keeper =
     \<lparr>GeneratePrivateKey = (\<lambda>w. (Inl ''device offline'', w)),
      GetPublicKey = (\<lambda>prvID w. (Inl ''unknown key'', w)),
      Sign = (\<lambda>data prvID w.
          if prvID = [] then (Inl ''unknown key'', w) else (Inr [], w))\<rparr>"

text \<open>
  Two runs of \<open>Sign\<close>, one of each signer, have the same outcome when both panic, or
  both return the same error or signed transaction in the same outside state (the
  receiver that \<open>SecureSign.Sign\<close> returns as well is left aside).
\<close>

fun same_outcome :: "((error + 'tx) \<times> 'w) run \<Rightarrow> ((error + 'tx) \<times> 'a \<times> 'w) run \<Rightarrow> bool" where
  "same_outcome Panic Panic = True"
| "same_outcome (Return (r, w)) (Return (r', a, w')) = (r = r' \<and> w = w')"
| "same_outcome Panic (Return y) = False"
| "same_outcome (Return x) Panic = False"

section \<open>Auxiliary facts\<close>

lemma defaultKeeper_sel [simp]:
  "GeneratePrivateKey (defaultKeeper c) = defaultPrivateKeyKeeper_GeneratePrivateKey c"
  "GetPublicKey (defaultKeeper c) = defaultPrivateKeyKeeper_GetPublicKey c"
  "Sign (defaultKeeper c) = defaultPrivateKeyKeeper_Sign c"
  by (simp_all add: defaultKeeper_def)

lemma sample_crypto_key_roundtrip: "crypto_key_roundtrip sample_crypto"
  by (auto simp: crypto_key_roundtrip_def sample_crypto_def split: list.splits if_splits)

lemma sample_crypto_sign_verify: "crypto_sign_verify sample_crypto"
  by (auto simp: crypto_sign_verify_def sample_crypto_def distrib_left split: if_splits)

lemma pass_through [simp]:
  "(case p of (Inl err, w') \<Rightarrow> (Inl err, w') | (Inr x, w') \<Rightarrow> (Inr x, w')) = p"
  by (cases p) (simp split: sum.splits)

section \<open>The default keeper\<close>

text \<open>
  C1: whenever \<open>Sign(d, k)\<close> of the default keeper succeeds and \<open>GetPublicKey(k)\<close>
  returns a public key, the signature verifies against that public key and \<open>d\<close>,
  given that the signing primitive of package crypto meets its verification rule.  This
  holds for every identifier \<open>k\<close>, so for every generated one, and for data of every
  length, so for 32-byte hashes.
\<close>

theorem Sign_verifies_against_GetPublicKey:
  assumes "crypto_sign_verify c"
    and "Sign (defaultKeeper c) d k w = (Inr sig, w')"
    and "GetPublicKey (defaultKeeper c) k v = (Inr pk, v')"
  shows "crypto_Verify c pk d sig"
proof -
  from assms(2) obtain prv where prv: "crypto_ToECDSA c k = Inr prv"
    and sg: "crypto_Sign c d prv w = (Inr sig, w')"
    by (auto simp: defaultPrivateKeyKeeper_Sign_def split: sum.splits)
  from assms(3) prv obtain pub where pub: "crypto_Public c prv = ECDSA_PublicKey pub"
    and pk: "pk = crypto_FromECDSAPub c pub"
    by (auto simp: defaultPrivateKeyKeeper_GetPublicKey_def
        split: sum.splits crypto_PublicKey.splits)
  from assms(1) sg pub show ?thesis
    unfolding crypto_sign_verify_def pk by blast
qed

theorem Sign_verifies_against_GetPublicKey_witness:
  "GeneratePrivateKey (defaultKeeper sample_crypto) [5, 9] = (Inr [5], [9]) \<and>
   Sign (defaultKeeper sample_crypto) (replicate 32 1) [5] [9] = (Inr (replicate 32 6), [9]) \<and>
   GetPublicKey (defaultKeeper sample_crypto) [5] [9] = (Inr [4, 15], [9]) \<and>
   crypto_Verify sample_crypto [4, 15] (replicate 32 1) (replicate 32 6)"
proof -
  have g: "GeneratePrivateKey (defaultKeeper sample_crypto) [5, 9] = (Inr [5], [9])"
    by (simp add: defaultPrivateKeyKeeper_GeneratePrivateKey_def sample_crypto_def)
  have s: "Sign (defaultKeeper sample_crypto) (replicate 32 1) [5] [9]
      = (Inr (replicate 32 6), [9])"
    by (simp add: defaultPrivateKeyKeeper_Sign_def sample_crypto_def)
  have p: "GetPublicKey (defaultKeeper sample_crypto) [5] [9] = (Inr [4, 15], [9])"
    by (simp add: defaultPrivateKeyKeeper_GetPublicKey_def sample_crypto_def)
  from g s p Sign_verifies_against_GetPublicKey [OF sample_crypto_sign_verify s p]
  show ?thesis by simp
qed

text \<open>
  C3: an identifier that \<open>crypto.ToECDSA\<close> does not parse makes both \<open>GetPublicKey\<close>
  and \<open>Sign\<close> of the default keeper return an error and no result: the error of the
  parsing step itself (the spec's InvalidKeyIdentifier), with the outside state as it
  was.  Neither call panics: both return.
\<close>

theorem unparseable_identifier_is_rejected:
  assumes "crypto_ToECDSA c prvID = Inl err"
  shows "GetPublicKey (defaultKeeper c) prvID w = (Inl err, w) \<and>
         Sign (defaultKeeper c) data prvID w = (Inl err, w)"
  using assms
  by (simp add: defaultPrivateKeyKeeper_GetPublicKey_def defaultPrivateKeyKeeper_Sign_def)

theorem unparseable_identifier_is_rejected_witness:
  "crypto_ToECDSA sample_crypto [1, 2, 3, 4, 5, 6, 7, 8, 9, 10] = Inl ''invalid length'' \<and>
   GetPublicKey (defaultKeeper sample_crypto) [1, 2, 3, 4, 5, 6, 7, 8, 9, 10] [9]
     = (Inl ''invalid length'', [9]) \<and>
   Sign (defaultKeeper sample_crypto) (replicate 32 1) [1, 2, 3, 4, 5, 6, 7, 8, 9, 10] [9]
     = (Inl ''invalid length'', [9])"
proof -
  have h: "crypto_ToECDSA sample_crypto [1, 2, 3, 4, 5, 6, 7, 8, 9, 10]
      = Inl ''invalid length''"
    by (simp add: sample_crypto_def)
  from h unparseable_identifier_is_rejected [OF h, of "[9]" "replicate 32 1"]
  show ?thesis by simp
qed

text \<open>
  C4: an identifier returned by a successful \<open>GeneratePrivateKey\<close> of the default keeper
  passes the parsing step of \<open>GetPublicKey\<close> and of \<open>Sign\<close>, given that \<open>ToECDSA\<close>
  reads back what \<open>FromECDSA\<close> writes for a generated key: \<open>ToECDSA\<close> returns the
  generated key, \<open>GetPublicKey\<close> goes on to the public key of that key and \<open>Sign\<close>
  returns what \<open>crypto.Sign\<close> returns for that key.
\<close>

theorem generated_identifier_is_accepted:
  assumes "crypto_key_roundtrip c"
    and "GeneratePrivateKey (defaultKeeper c) w = (Inr k, w')"
  shows "\<exists>prv. crypto_GenerateKey c w = (Inr prv, w') \<and> k = crypto_FromECDSA c prv \<and>
           crypto_ToECDSA c k = Inr prv \<and>
           GetPublicKey (defaultKeeper c) k v =
             (case crypto_Public c prv of
                Other_PublicKey \<Rightarrow> (Inl ''cannot cast public key to ecsda public key'', v)
              | ECDSA_PublicKey pub \<Rightarrow> (Inr (crypto_FromECDSAPub c pub), v)) \<and>
           Sign (defaultKeeper c) d k u = crypto_Sign c d prv u"
proof -
  from assms(2) obtain prv where gen: "crypto_GenerateKey c w = (Inr prv, w')"
    and k: "k = crypto_FromECDSA c prv"
    by (auto simp: defaultPrivateKeyKeeper_GeneratePrivateKey_def split: prod.splits sum.splits)
  from assms(1) gen have parse: "crypto_ToECDSA c k = Inr prv"
    unfolding crypto_key_roundtrip_def k by blast
  from gen k parse show ?thesis
    by (simp add: defaultPrivateKeyKeeper_GetPublicKey_def defaultPrivateKeyKeeper_Sign_def)
qed

theorem generated_identifier_is_accepted_witness:
  "GeneratePrivateKey (defaultKeeper sample_crypto) [5, 9] = (Inr [5], [9]) \<and>
   crypto_ToECDSA sample_crypto [5] = Inr 5 \<and>
   GetPublicKey (defaultKeeper sample_crypto) [5] [9] = (Inr [4, 15], [9]) \<and>
   Sign (defaultKeeper sample_crypto) (replicate 32 1) [5] [9] = (Inr (replicate 32 6), [9])"
proof -
  have g: "GeneratePrivateKey (defaultKeeper sample_crypto) [5, 9] = (Inr [5], [9])"
    by (simp add: defaultPrivateKeyKeeper_GeneratePrivateKey_def sample_crypto_def)
  from generated_identifier_is_accepted [OF sample_crypto_key_roundtrip g,
      of "[9]" "replicate 32 1" "[9]"]
  obtain prv where "crypto_GenerateKey sample_crypto [5, 9] = (Inr prv, [9])"
    and "crypto_ToECDSA sample_crypto [5] = Inr prv"
    and "GetPublicKey (defaultKeeper sample_crypto) [5] [9] =
           (case crypto_Public sample_crypto prv of
              Other_PublicKey \<Rightarrow> (Inl ''cannot cast public key to ecsda public key'', [9])
            | ECDSA_PublicKey pub \<Rightarrow> (Inr (crypto_FromECDSAPub sample_crypto pub), [9]))"
    and "Sign (defaultKeeper sample_crypto) (replicate 32 1) [5] [9]
           = crypto_Sign sample_crypto (replicate 32 1) prv [9]"
    by blast
  with g show ?thesis by (simp add: sample_crypto_def)
qed

text \<open>
  C8: \<open>GetPublicKey\<close> of the default keeper is a function of the identifier alone: it
  returns the same result in every outside state, and leaves that state as it was.
  This holds for every identifier, so for every valid generated one.
\<close>

theorem GetPublicKey_is_deterministic:
  "fst (GetPublicKey (defaultKeeper c) k w1) = fst (GetPublicKey (defaultKeeper c) k w2) \<and>
   snd (GetPublicKey (defaultKeeper c) k w1) = w1"
  by (simp add: defaultPrivateKeyKeeper_GetPublicKey_def
      split: sum.splits crypto_PublicKey.splits)

section \<open>The signers\<close>

text \<open>
  C2: \<open>secureSigner.Sign(tx, s, keyID)\<close> with a keeper \<open>k\<close> hashes the transaction
  with \<open>s\<close>, and when \<open>k.Sign\<close> succeeds on those hash bytes and \<open>keyID\<close> it returns
  \<open>tx.WithSignature(s, sig)\<close> for the signature \<open>sig\<close> the keeper made, in the outside
  state the keeper left.  Conversely a signed transaction it returns is such a
  reassembly of a signature the keeper made on the hash.
\<close>

theorem secureSigner_Sign_hashes_signs_reassembles:
  assumes "secureSigner.keeper sec = Some k"
  shows "(Sign k (Signer_Hash T s tx) keyID w = (Inr sig, w') \<longrightarrow>
            secureSigner_Sign T sec tx s keyID w
              = Return (Transaction_WithSignature T tx s sig, w')) \<and>
         (secureSigner_Sign T sec tx s keyID w = Return (Inr tx', w') \<longleftrightarrow>
            (\<exists>sig. Sign k (Signer_Hash T s tx) keyID w = (Inr sig, w') \<and>
                   Transaction_WithSignature T tx s sig = Inr tx'))"
  using assms
  by (auto simp: secureSigner_Sign_def split: prod.splits sum.splits)

theorem secureSigner_Sign_hashes_signs_reassembles_witness:
  "Signer_Hash sample_types 1 ([2, 3], []) = replicate 32 3 \<and>
   Sign (defaultKeeper sample_crypto) (replicate 32 3) [5] [9] = (Inr (replicate 32 8), [9]) \<and>
   secureSigner_Sign sample_types (DefaultSecureSigner sample_crypto) ([2, 3], []) 1 [5] [9]
     = Return (Inr ([2, 3], replicate 32 8), [9])"
proof -
  have k: "secureSigner.keeper (DefaultSecureSigner sample_crypto)
      = Some (defaultKeeper sample_crypto)"
    by (simp add: DefaultSecureSigner_def)
  have h: "Signer_Hash sample_types 1 ([2, 3], []) = replicate 32 3"
    by (simp add: sample_types_def)
  have s: "Sign (defaultKeeper sample_crypto) (replicate 32 3) [5] [9]
      = (Inr (replicate 32 8), [9])"
    by (simp add: defaultPrivateKeyKeeper_Sign_def sample_crypto_def)
  have r: "Transaction_WithSignature sample_types ([2, 3], []) 1 (replicate 32 8)
      = Inr ([2, 3], replicate 32 8)"
    by (simp add: sample_types_def)
  from secureSigner_Sign_hashes_signs_reassembles [OF k, of sample_types 1 "([2, 3], [])"
      "[5]" "[9]" "replicate 32 8" "[9]"] h s r
  show ?thesis by simp
qed

text \<open>
  C7: an error of the keeper comes out of \<open>GenerateKey\<close>, \<open>GetPublicKey\<close> and \<open>Sign\<close>
  of \<open>secureSigner\<close> as the same error, with no result, in the outside state the
  keeper's one call left; so does an error of \<open>tx.WithSignature\<close>, the one step of the
  hasher's side that can fail (\<open>s.Hash\<close> returns no error).
\<close>

theorem secureSigner_errors_unchanged:
  assumes "secureSigner.keeper sec = Some k"
  shows "(GeneratePrivateKey k w1 = (Inl e1, w1') \<longrightarrow>
            secureSigner_GenerateKey sec w1 = Return (Inl e1, w1')) \<and>
         (GetPublicKey k id2 w2 = (Inl e2, w2') \<longrightarrow>
            secureSigner_GetPublicKey sec id2 w2 = Return (Inl e2, w2')) \<and>
         (Sign k (Signer_Hash T s3 tx3) id3 w3 = (Inl e3, w3') \<longrightarrow>
            secureSigner_Sign T sec tx3 s3 id3 w3 = Return (Inl e3, w3')) \<and>
         (Sign k (Signer_Hash T s4 tx4) id4 w4 = (Inr sig4, w4') \<longrightarrow>
          Transaction_WithSignature T tx4 s4 sig4 = Inl e4 \<longrightarrow>
            secureSigner_Sign T sec tx4 s4 id4 w4 = Return (Inl e4, w4'))"
  using assms
  by (simp add: secureSigner_GenerateKey_def secureSigner_GetPublicKey_def
      secureSigner_Sign_def)

theorem secureSigner_errors_unchanged_witness:
  "secureSigner_GenerateKey (NewSecureSigner (Some offline_keeper)) [9]
     = Return (Inl ''device offline'', [9]) \<and>
   secureSigner_GetPublicKey (NewSecureSigner (Some offline_keeper)) [5] [9]
     = Return (Inl ''unknown key'', [9]) \<and>
   secureSigner_Sign sample_types (NewSecureSigner (Some offline_keeper)) ([2, 3], []) 1 [] [9]
     = Return (Inl ''unknown key'', [9]) \<and>
   secureSigner_Sign sample_types (NewSecureSigner (Some offline_keeper)) ([2, 3], []) 1 [5] [9]
     = Return (Inl ''wrong size for signature'', [9])"
proof -
  have k: "secureSigner.keeper (NewSecureSigner (Some offline_keeper)) = Some offline_keeper"
    by (simp add: NewSecureSigner_def)
  have g: "GeneratePrivateKey offline_keeper [9] = (Inl ''device offline'', [9])"
    by (simp add: offline_keeper_def)
  have p: "GetPublicKey offline_keeper [5] [9] = (Inl ''unknown key'', [9])"
    by (simp add: offline_keeper_def)
  have s3: "Sign offline_keeper (Signer_Hash sample_types 1 ([2, 3], [])) [] [9]
      = (Inl ''unknown key'', [9])"
    by (simp add: offline_keeper_def)
  have s4: "Sign offline_keeper (Signer_Hash sample_types 1 ([2, 3], [])) [5] [9]
      = (Inr [], [9])"
    by (simp add: offline_keeper_def)
  have r: "Transaction_WithSignature sample_types ([2, 3], []) 1 []
      = Inl ''wrong size for signature''"
    by (simp add: sample_types_def)
  from secureSigner_errors_unchanged [OF k, of "[9]" "''device offline''" "[9]"
      "[5]" "[9]" "''unknown key''" "[9]"
      sample_types 1 "([2, 3], [])" "[]" "[9]" "''unknown key''" "[9]"
      1 "([2, 3], [])" "[5]" "[9]" "[]" "[9]" "''wrong size for signature''"]
    g p s3 s4 r
  show ?thesis by simp
qed


lemma secureSigner_Sign_returns:
  assumes "secureSigner.keeper sec = Some k"
  shows "\<exists>r w'. secureSigner_Sign T sec tx s prvID w = Return (r, w')"
proof (cases "Sign k (Signer_Hash T s tx) prvID w")
  case (Pair x w')
  with assms show ?thesis
    by (cases x) (simp_all add: secureSigner_Sign_def)
qed

lemma SecureSign_Sign_as_secureSigner:
  "SecureSign_Sign T c a tx s prvID w =
     map_run (\<lambda>(r, w'). (r, a\<lparr>SecureSign.keeper :=
         Some (case SecureSign.keeper a of None \<Rightarrow> defaultKeeper c | Some k \<Rightarrow> k)\<rparr>, w'))
       (secureSigner_Sign T
         (NewSecureSigner
           (Some (case SecureSign.keeper a of None \<Rightarrow> defaultKeeper c | Some k \<Rightarrow> k)))
         tx s prvID w)"
  by (cases "SecureSign.keeper a")
    (simp_all add: SecureSign_Sign_def secureSigner_Sign_def NewSecureSigner_def Let_def
      split: prod.splits sum.splits)

lemma SecureSign_Sign_returns:
  "\<exists>r w'. SecureSign_Sign T c a tx s prvID w
      = Return (r, a\<lparr>SecureSign.keeper :=
          Some (case SecureSign.keeper a of None \<Rightarrow> defaultKeeper c | Some k \<Rightarrow> k)\<rparr>, w')"
proof -
  let ?k = "case SecureSign.keeper a of None \<Rightarrow> defaultKeeper c | Some k \<Rightarrow> k"
  have "secureSigner.keeper (NewSecureSigner (Some ?k)) = Some ?k"
    by (simp add: NewSecureSigner_def)
  from secureSigner_Sign_returns [OF this, of T tx s prvID w]
  obtain r w' where
    "secureSigner_Sign T (NewSecureSigner (Some ?k)) tx s prvID w = Return (r, w')"
    by blast
  then show ?thesis
    by (simp add: SecureSign_Sign_as_secureSigner)
qed

lemma same_outcome_map_run:
  "same_outcome x (map_run (\<lambda>(r, w'). (r, a, w')) x)"
  by (cases x) (auto split: prod.splits)

text \<open>
  C10: a signer built by \<open>NewSecureSigner(nil)\<close> keeps the nil keeper, and each of
  \<open>GenerateKey\<close>, \<open>GetPublicKey\<close> and \<open>Sign\<close> panics on it: there is no fallback to the
  default keeper.  \<open>NewSecureSigner\<close> stores its argument as it is; the default keeper
  is supplied by \<open>DefaultSecureSigner\<close>, at construction, and by \<open>SecureSign.Sign\<close> on
  a nil field, which returns without a panic and with the default keeper in the field.
\<close>

theorem NewSecureSigner_nil_panics:
  "secureSigner_GenerateKey (NewSecureSigner None) w = Panic \<and>
   secureSigner_GetPublicKey (NewSecureSigner None) prvID w = Panic \<and>
   secureSigner_Sign T (NewSecureSigner None) tx s prvID w = Panic \<and>
   secureSigner.keeper (NewSecureSigner k) = k \<and>
   secureSigner.keeper (DefaultSecureSigner c) = Some (defaultKeeper c) \<and>
   (\<exists>r w'. SecureSign_Sign T c \<lparr>SecureSign.keeper = None\<rparr> tx s prvID w
      = Return (r, \<lparr>SecureSign.keeper = Some (defaultKeeper c)\<rparr>, w'))"
  using SecureSign_Sign_returns [of T c "\<lparr>SecureSign.keeper = None\<rparr>" tx s prvID w]
  by (simp add: secureSigner_GenerateKey_def secureSigner_GetPublicKey_def
      secureSigner_Sign_def NewSecureSigner_def DefaultSecureSigner_def)

text \<open>
  C9: \<open>SecureSign.Sign\<close> returns (it does not panic) and leaves in the field the
  keeper it signed with: the default keeper when the field was nil, the keeper of the
  field otherwise; so the field is not nil afterwards.  A later \<open>Sign\<close> on a receiver
  with a keeper in the field signs with that keeper, as \<open>secureSigner.Sign\<close> does when
  built with it, and leaves the field as it is.  \<open>SetKeeper\<close> replaces the field.
\<close>

theorem SecureSign_Sign_sets_keeper:
  "(\<exists>r w'. SecureSign_Sign T c a tx s prvID w
      = Return (r, a\<lparr>SecureSign.keeper :=
          Some (case SecureSign.keeper a of None \<Rightarrow> defaultKeeper c | Some k \<Rightarrow> k)\<rparr>, w')) \<and>
   SecureSign_Sign T c (a\<lparr>SecureSign.keeper := Some k1\<rparr>) tx1 s1 prvID1 w1
     = map_run (\<lambda>(r, w'). (r, a\<lparr>SecureSign.keeper := Some k1\<rparr>, w'))
         (secureSigner_Sign T (NewSecureSigner (Some k1)) tx1 s1 prvID1 w1) \<and>
   SecureSign.keeper (SecureSign_SetKeeper a k2) = k2"
  using SecureSign_Sign_returns [of T c a tx s prvID w]
    SecureSign_Sign_as_secureSigner [of T c "a\<lparr>SecureSign.keeper := Some k1\<rparr>" tx1 s1 prvID1 w1]
  by (simp add: SecureSign_SetKeeper_def)

text \<open>
  C6, as stated, fails for the nil keeper: \<open>secureSigner.Sign\<close> panics, while
  \<open>SecureSign.Sign\<close> takes the default keeper and returns a signed transaction.
\<close>

theorem signers_differ_on_nil_keeper:
  "\<not> same_outcome
       (secureSigner_Sign sample_types \<lparr>secureSigner.keeper = None\<rparr> ([2, 3], []) 1 [5] [9])
       (SecureSign_Sign sample_types sample_crypto \<lparr>SecureSign.keeper = None\<rparr>
          ([2, 3], []) 1 [5] [9]) \<and>
   secureSigner_Sign sample_types \<lparr>secureSigner.keeper = None\<rparr> ([2, 3], []) 1 [5] [9] = Panic \<and>
   SecureSign_Sign sample_types sample_crypto \<lparr>SecureSign.keeper = None\<rparr> ([2, 3], []) 1 [5] [9]
     = Return (Inr ([2, 3], replicate 32 8),
         \<lparr>SecureSign.keeper = Some (defaultKeeper sample_crypto)\<rparr>, [9])"
  by (simp add: secureSigner_Sign_def SecureSign_Sign_def defaultPrivateKeyKeeper_Sign_def
      sample_types_def sample_crypto_def)

text \<open>
  C6, amended: for every keeper \<open>k\<close> that is not nil, \<open>secureSigner{keeper: k}.Sign\<close>
  and \<open>(&SecureSign{keeper: k}).Sign\<close> have the same outcome on the same transaction,
  hasher, identifier and outside state: the same signed transaction or the same error.
\<close>

theorem signers_agree_on_keeper:
  "same_outcome
     (secureSigner_Sign T \<lparr>secureSigner.keeper = Some k\<rparr> tx s prvID w)
     (SecureSign_Sign T c \<lparr>SecureSign.keeper = Some k\<rparr> tx s prvID w)"
  using same_outcome_map_run
    [of "secureSigner_Sign T \<lparr>secureSigner.keeper = Some k\<rparr> tx s prvID w"
      "\<lparr>SecureSign.keeper = Some k\<rparr>"]
  by (simp add: SecureSign_Sign_as_secureSigner NewSecureSigner_def)

text \<open>
  C5, as stated, fails for \<open>NewSecureSigner(nil)\<close>: no keeper was set, the signer does
  not fall back to the default keeper, and its first operation panics where the default
  keeper returns a key.
\<close>

theorem NewSecureSigner_nil_has_no_fallback:
  "secureSigner.keeper (NewSecureSigner None) = (None :: bytes PrivateKeyKeeper option) \<and>
   secureSigner_GenerateKey (NewSecureSigner None) [5, 9] = Panic \<and>
   secureSigner_GenerateKey (DefaultSecureSigner sample_crypto) [5, 9] = Return (Inr [5], [9]) \<and>
   secureSigner_GenerateKey (NewSecureSigner None) [5, 9]
     \<noteq> secureSigner_GenerateKey (DefaultSecureSigner sample_crypto) [5, 9]"
  by (simp add: secureSigner_GenerateKey_def NewSecureSigner_def DefaultSecureSigner_def
      defaultPrivateKeyKeeper_GeneratePrivateKey_def sample_crypto_def)

text \<open>
  C5, amended: a \<open>secureSigner\<close> holds the keeper it was built with.
  \<open>NewSecureSigner\<close> stores its argument as it is, nil included, and
  \<open>DefaultSecureSigner\<close> stores the default keeper at construction.  A \<open>SecureSign\<close>
  whose field is nil assigns the default keeper in \<open>Sign\<close> and signs with it, as the
  signer of \<open>DefaultSecureSigner\<close> does; one whose field holds a keeper signs with that
  keeper and keeps it.
\<close>

theorem signer_keeper_by_construction:
  "secureSigner.keeper (NewSecureSigner k) = k \<and>
   secureSigner.keeper (DefaultSecureSigner c) = Some (defaultKeeper c) \<and>
   SecureSign_Sign T c \<lparr>SecureSign.keeper = None\<rparr> tx s prvID w
     = map_run (\<lambda>(r, w'). (r, \<lparr>SecureSign.keeper = Some (defaultKeeper c)\<rparr>, w'))
         (secureSigner_Sign T (DefaultSecureSigner c) tx s prvID w) \<and>
   SecureSign_Sign T c \<lparr>SecureSign.keeper = Some k'\<rparr> tx s prvID w
     = map_run (\<lambda>(r, w'). (r, \<lparr>SecureSign.keeper = Some k'\<rparr>, w'))
         (secureSigner_Sign T (NewSecureSigner (Some k')) tx s prvID w)"
  by (simp add: SecureSign_Sign_as_secureSigner NewSecureSigner_def DefaultSecureSigner_def)

end
